theory Spec2Isabelle
  imports Main
begin

section \<open>Python strings and lists\<close>

text \<open>
  A Python \<open>str\<close> is modelled as a \<open>string\<close> whose characters are read as the code
  points 0 to 255; text with code points beyond that range is outside the model.
  The character classes below are the ones of CPython on that range.
\<close>

definition ord :: "char \<Rightarrow> nat" where
  "ord c = of_char c"

definition LF :: char where
  "LF = CHR 0x0A"

definition CR :: char where
  "CR = CHR 0x0D"

definition dquote :: char where
  "dquote = CHR 0x22"

text \<open>\<open>str.isspace\<close> on one character; also the class \<open>\s\<close> of \<open>re\<close>.\<close>

definition isspace :: "char \<Rightarrow> bool" where
  "isspace c = (let n = ord c in (9 \<le> n \<and> n \<le> 13) \<or> (28 \<le> n \<and> n \<le> 32) \<or> n = 133 \<or> n = 160)"

text \<open>The line boundaries of \<open>str.splitlines\<close> (the pair CR LF counts as one).\<close>

definition is_linebreak :: "char \<Rightarrow> bool" where
  "is_linebreak c = (let n = ord c in (10 \<le> n \<and> n \<le> 13) \<or> (28 \<le> n \<and> n \<le> 30) \<or> n = 133)"

definition lstrip :: "string \<Rightarrow> string" where
  "lstrip s = dropWhile isspace s"

definition rstrip :: "string \<Rightarrow> string" where
  "rstrip s = rev (dropWhile isspace (rev s))"

definition strip :: "string \<Rightarrow> string" where
  "strip s = lstrip (rstrip s)"

text \<open>\<open>str.splitlines()\<close>: the lines without their terminators; no empty last line
  after a final terminator.\<close>

fun splitlines :: "string \<Rightarrow> string list" where
  "splitlines [] = []"
| "splitlines [c] = (if is_linebreak c then [[]] else [[c]])"
| "splitlines (c # d # cs) =
     (if c = CR \<and> d = LF then [] # splitlines cs
      else if is_linebreak c then [] # splitlines (d # cs)
      else (case splitlines (d # cs) of
              [] \<Rightarrow> [[c]]
            | l # ls \<Rightarrow> (c # l) # ls))"

text \<open>\<open>sep.join(xs)\<close>.\<close>

fun join :: "string \<Rightarrow> string list \<Rightarrow> string" where
  "join sep [] = []"
| "join sep [x] = x"
| "join sep (x # y # ys) = x @ sep @ join sep (y # ys)"


text \<open>\<open>s.split(c)\<close> for a separator of one character: the inverse of \<open>join\<close> on
  pieces that do not contain the separator.\<close>

fun split_on :: "char \<Rightarrow> string \<Rightarrow> string list" where
  "split_on c [] = [[]]"
| "split_on c (x # xs) =
     (if x = c then [] # split_on c xs
      else (x # hd (split_on c xs)) # tl (split_on c xs))"

text \<open>\<open>s.replace(c, t)\<close> for a pattern of one character.\<close>

definition replace :: "char \<Rightarrow> string \<Rightarrow> string \<Rightarrow> string" where
  "replace c t s = concat (map (\<lambda>x. if x = c then t else [x]) s)"

text \<open>\<open>s.rfind(c)\<close>: the last index of the character, -1 when it does not occur.\<close>

definition rfind :: "string \<Rightarrow> char \<Rightarrow> int" where
  "rfind s c =
     (if c \<in> set s then int (length s) - 1 - int (length (takeWhile (\<lambda>x. x \<noteq> c) (rev s)))
      else - 1)"

text \<open>\<open>s.count(c)\<close> is \<open>count_list s c\<close>.\<close>

datatype error = IndexError | KeyError | SyntaxError | DecodeError

text \<open>\<open>xs[i]\<close>: a negative index counts from the end; out of range raises.\<close>

definition py_index :: "'a list \<Rightarrow> int \<Rightarrow> error + 'a" where
  "py_index xs i =
     (if 0 \<le> i \<and> i < int (length xs) then Inr (xs ! nat i)
      else if i < 0 \<and> - int (length xs) \<le> i then Inr (xs ! nat (int (length xs) + i))
      else Inl IndexError)"

text \<open>\<open>xs.insert(i, x)\<close>: the index is clipped to the list, never an error.\<close>

definition py_insert :: "'a list \<Rightarrow> int \<Rightarrow> 'a \<Rightarrow> 'a list" where
  "py_insert xs i x =
     (let k = (if i < 0 then nat (int (length xs) + i) else min (nat i) (length xs))
      in take k xs @ [x] @ drop k xs)"

section \<open>Data model\<close>

text \<open>An entry of \<open>undocumented_items\<close>: the dict with the keys
  \<open>type\<close>, \<open>name\<close>, \<open>line\<close>, \<open>code\<close> that the scanner appends.\<close>

record undocumented_item =
  item_type :: string
  item_name :: string
  line :: int
  code :: "string option"

section \<open>Documentation insertion (documenter.py)\<close>

text \<open>The local \<open>indent\<close> of both insertion functions: as many spaces as the line
  has leading whitespace characters.\<close>

definition indent_of :: "string \<Rightarrow> string" where
  "indent_of l = replicate (length l - length (lstrip l)) (CHR '' '')"

text \<open>The local \<open>docstring\<close> of \<open>_insert_python_docs\<close>.\<close>

definition python_docstring :: "string \<Rightarrow> string \<Rightarrow> string" where
  "python_docstring indent docs =
     indent @ replicate 3 dquote @ strip docs @ [LF] @ indent @ replicate 3 dquote"

text \<open>The local \<open>docstring\<close> of \<open>_insert_js_docs\<close>.\<close>

definition js_docstring :: "string \<Rightarrow> string \<Rightarrow> string" where
  "js_docstring indent docs =
     indent @ ''/**'' @ [LF] @ indent @ '' * ''
       @ replace LF ([LF] @ indent @ '' * '') (strip docs)
       @ [LF] @ indent @ '' */''"

definition insert_python_docs :: "string \<Rightarrow> undocumented_item \<Rightarrow> string \<Rightarrow> error + string" where
  "insert_python_docs code_text item docs =
     (let lines = splitlines code_text;
          insert_line = line item - 1
      in case py_index lines insert_line of
           Inl e \<Rightarrow> Inl e
         | Inr l \<Rightarrow>
             Inr (join [LF] (py_insert lines (insert_line + 1)
                               (python_docstring (indent_of l) docs))))"

definition insert_js_docs :: "string \<Rightarrow> undocumented_item \<Rightarrow> string \<Rightarrow> error + string" where
  "insert_js_docs code_text item docs =
     (let lines = splitlines code_text;
          insert_line = line item - 1
      in case py_index lines insert_line of
           Inl e \<Rightarrow> Inl e
         | Inr l \<Rightarrow>
             Inr (join [LF] (py_insert lines insert_line
                               (js_docstring (indent_of l) docs))))"

definition insert_ts_docs :: "string \<Rightarrow> undocumented_item \<Rightarrow> string \<Rightarrow> error + string" where
  "insert_ts_docs code_text item docs = insert_js_docs code_text item docs"

section \<open>Regular expressions (the \<open>re\<close> module)\<close>

text \<open>
  The two patterns of the scanner use literals, sequence, alternation, greedy options,
  greedy and lazy repetition of one character class, and groups. A backtracking matcher
  is modelled by the list of all ways to match at the start of the input, in the order in
  which the matcher tries them: each way is the rest of the input and the named groups
  captured on the way. The first element is the match that \<open>re\<close> reports.
\<close>

text \<open>The class \<open>\w\<close> on the code points 0 to 255.\<close>

definition isword :: "char \<Rightarrow> bool" where
  "isword c =
     (let n = ord c
      in (48 \<le> n \<and> n \<le> 57) \<or> (65 \<le> n \<and> n \<le> 90) \<or> n = 95 \<or> (97 \<le> n \<and> n \<le> 122)
         \<or> n = 170 \<or> n = 178 \<or> n = 179 \<or> n = 181 \<or> n = 185 \<or> n = 186
         \<or> (188 \<le> n \<and> n \<le> 190) \<or> (192 \<le> n \<and> n \<le> 214) \<or> (216 \<le> n \<and> n \<le> 246)
         \<or> 248 \<le> n)"

datatype cclass =
    Word        \<comment> \<open>\<open>\w\<close>\<close>
  | Space       \<comment> \<open>\<open>\s\<close>\<close>
  | NotRParen   \<comment> \<open>\<open>[^)]\<close>\<close>
  | AnyChar     \<comment> \<open>\<open>.\<close> under \<open>re.DOTALL\<close>\<close>

fun in_class :: "cclass \<Rightarrow> char \<Rightarrow> bool" where
  "in_class Word c = isword c"
| "in_class Space c = isspace c"
| "in_class NotRParen c = (c \<noteq> CHR '')'')"
| "in_class AnyChar c = True"

datatype regex =
    Lit string            \<comment> \<open>a literal text\<close>
  | Seq regex regex
  | Alt regex regex       \<comment> \<open>\<open>a|b\<close>\<close>
  | Opt regex             \<comment> \<open>\<open>a?\<close>\<close>
  | Star cclass           \<comment> \<open>\<open>c*\<close>\<close>
  | Plus cclass           \<comment> \<open>\<open>c+\<close>\<close>
  | LazyStar cclass       \<comment> \<open>\<open>c*?\<close>\<close>
  | Group string regex    \<comment> \<open>\<open>(?P<name>a)\<close>\<close>

text \<open>The rests of the input after \<open>c*\<close>: the longest run first.\<close>

fun star_greedy :: "(char \<Rightarrow> bool) \<Rightarrow> string \<Rightarrow> string list" where
  "star_greedy p [] = [[]]"
| "star_greedy p (x # xs) = (if p x then star_greedy p xs @ [x # xs] else [x # xs])"

text \<open>The rests of the input after \<open>c*?\<close>: the shortest run first.\<close>

fun star_lazy :: "(char \<Rightarrow> bool) \<Rightarrow> string \<Rightarrow> string list" where
  "star_lazy p [] = [[]]"
| "star_lazy p (x # xs) = (x # xs) # (if p x then star_lazy p xs else [])"

type_synonym mstate = "string \<times> (string \<times> string) list"

fun rmatch :: "regex \<Rightarrow> mstate \<Rightarrow> mstate list" where
  "rmatch (Lit l) (s, g) = (if take (length l) s = l then [(drop (length l) s, g)] else [])"
| "rmatch (Seq a b) st = concat (map (rmatch b) (rmatch a st))"
| "rmatch (Alt a b) st = rmatch a st @ rmatch b st"
| "rmatch (Opt a) st = rmatch a st @ [st]"
| "rmatch (Star c) (s, g) = map (\<lambda>r. (r, g)) (star_greedy (in_class c) s)"
| "rmatch (Plus c) (s, g) =
     (case s of
        [] \<Rightarrow> []
      | x # xs \<Rightarrow> if in_class c x then map (\<lambda>r. (r, g)) (star_greedy (in_class c) xs) else [])"
| "rmatch (LazyStar c) (s, g) = map (\<lambda>r. (r, g)) (star_lazy (in_class c) s)"
| "rmatch (Group n a) (s, g) =
     map (\<lambda>(r, g'). (r, (n, take (length s - length r) s) # g')) (rmatch a (s, g))"

fun seqs :: "regex list \<Rightarrow> regex" where
  "seqs [] = Lit []"
| "seqs [r] = r"
| "seqs (r # rs) = Seq r (seqs rs)"

text \<open>A match object: \<open>start()\<close>, \<open>group(0)\<close> and the named groups.\<close>

record re_match =
  m_start :: nat
  group0 :: string
  groups :: "(string \<times> string) list"

text \<open>\<open>match.group(name)\<close> of a group that took part in the match.\<close>

definition group :: "re_match \<Rightarrow> string \<Rightarrow> string" where
  "group m n = (case map_of (groups m) n of Some t \<Rightarrow> t | None \<Rightarrow> [])"

text \<open>\<open>bool(pattern.search(s))\<close>: is there a match at some position.\<close>

fun re_search :: "regex \<Rightarrow> string \<Rightarrow> bool" where
  "re_search r [] = (rmatch r ([], []) \<noteq> [])"
| "re_search r (c # cs) = (rmatch r (c # cs, []) \<noteq> [] \<or> re_search r cs)"

text \<open>
  \<open>pattern.finditer(s)\<close> for a pattern that matches no empty text: the matches from left
  to right, each search starting where the previous match ended. \<open>pos\<close> is the offset of
  the rest of the input, \<open>skip\<close> the number of characters still inside the previous match.
\<close>

fun finditer_at :: "regex \<Rightarrow> nat \<Rightarrow> nat \<Rightarrow> string \<Rightarrow> re_match list" where
  "finditer_at r pos skip [] = []"
| "finditer_at r pos skip (c # cs) =
     (if 0 < skip then finditer_at r (Suc pos) (skip - 1) cs
      else (case rmatch r (c # cs, []) of
              [] \<Rightarrow> finditer_at r (Suc pos) 0 cs
            | (rest, g) # _ \<Rightarrow>
                \<lparr>m_start = pos, group0 = take (length (c # cs) - length rest) (c # cs), groups = g\<rparr>
                  # finditer_at r (Suc pos) (length (c # cs) - length rest - 1) cs))"

definition finditer :: "regex \<Rightarrow> string \<Rightarrow> re_match list" where
  "finditer r s = finditer_at r 0 0 s"

section \<open>The scanner (scanner.py)\<close>

datatype language = Python | JavaScript | TypeScript | Unsupported

text \<open>
  Modelled from the spec: the class \<open>FileAnalysis\<close> of \<open>app/models.py\<close>, which is not
  among the sources. The fields are the ones the scanner and the documenter read and
  write; an analysis built without \<open>language\<close> and \<open>original_content\<close> has the
  language \<open>Unsupported\<close> and an empty content, and \<open>undocumented_items\<close> starts empty.
\<close>

record FileAnalysis =
  path :: string
  language :: language
  needs_docs :: bool
  original_content :: string
  undocumented_items :: "undocumented_item list"

text \<open>\<open>self.js_function_pattern\<close>; \<open>re.MULTILINE\<close> changes only the anchors, and the
  pattern has none.\<close>

definition js_function_pattern :: regex where
  "js_function_pattern =
     seqs [
       Group ''prefix'' (seqs [
         Opt (Seq (Lit ''export'') (Plus Space)),
         Opt (Seq (Lit ''async'') (Plus Space)),
         Alt (seqs [Lit ''function'', Opt (Lit ''*''), Plus Space])
          (Alt (seqs [Lit ''const'', Plus Space, Plus Word, Star Space, Lit ''='', Star Space,
                      Opt (Seq (Lit ''async'') (Plus Space)),
                      Lit ''function'', Opt (Lit ''*''), Star Space])
               (Seq (Lit ''class'') (Plus Space)))]),
       Group ''name'' (Plus Word),
       Group ''params'' (seqs [Lit ''('', Star NotRParen, Lit '')''])]"

text \<open>\<open>self.jsdoc_pattern\<close>, compiled with \<open>re.DOTALL\<close>.\<close>

definition jsdoc_pattern :: regex where
  "jsdoc_pattern = seqs [Lit ''/**'', LazyStar AnyChar, Lit ''*/'']"

definition has_jsdoc :: "string \<Rightarrow> bool" where
  "has_jsdoc preceding_code =
     (let trimmed = rstrip preceding_code
      in if trimmed = [] then False
         else (let last_newline = rfind trimmed LF;
                   search_area = (if last_newline \<noteq> - 1
                                  then drop (nat (last_newline + 1)) trimmed
                                  else trimmed)
               in re_search jsdoc_pattern search_area))"

text \<open>The body of the loop of \<open>_parse_javascript\<close> for one match.\<close>

definition js_step :: "string \<Rightarrow> FileAnalysis \<Rightarrow> re_match \<Rightarrow> FileAnalysis" where
  "js_step content analysis m =
     (let func_code = group0 m;
          func_name = group m ''name'';
          line_no = int (count_list (take (m_start m) content) LF) + 1;
          preceding_code = take (m_start m) content
      in if \<not> has_jsdoc preceding_code
         then analysis\<lparr>needs_docs := True,
                        undocumented_items := undocumented_items analysis @
                          [\<lparr>item_type = ''function'', item_name = func_name,
                            line = line_no, code = Some func_code\<rparr>]\<rparr>
         else analysis)"


definition parse_javascript :: "string \<Rightarrow> string \<Rightarrow> language \<Rightarrow> FileAnalysis" where
  "parse_javascript content file_path lang =
     foldl (js_step content)
       \<lparr>path = file_path, language = lang, needs_docs = False,
        original_content = content, undocumented_items = []\<rparr>
       (finditer js_function_pattern content)"

subsection \<open>Python files\<close>

text \<open>
  The syntax tree of the \<open>ast\<close> module, reduced to what the scanner reads: whether a node
  is a \<open>FunctionDef\<close>, an \<open>AsyncFunctionDef\<close>, a \<open>ClassDef\<close> or another node, its
  \<open>name\<close> and \<open>lineno\<close>, the results of \<open>ast.get_docstring(node)\<close> and of
  \<open>ast.get_source_segment(content, node)\<close>, and its children in the order of
  \<open>ast.iter_child_nodes\<close>.
\<close>

datatype node_kind = FunctionDef | AsyncFunctionDef | ClassDef | OtherNode

datatype ast =
  Node (node_kind: node_kind) (node_name: string) (lineno: int)
       (get_docstring: "string option") (get_source_segment: "string option")
       (iter_child_nodes: "ast list")

text \<open>\<open>ast.walk\<close>: a queue that starts with the root; each node taken from the front
  is yielded and its children are appended at the back.\<close>

function walk_queue :: "ast list \<Rightarrow> ast list" where
  "walk_queue [] = []"
| "walk_queue (n # todo) = n # walk_queue (todo @ iter_child_nodes n)"
  by pat_completeness auto
termination
proof (relation "measure (\<lambda>q. sum_list (map size q))")
  show "wf (measure (\<lambda>q. sum_list (map size q)))" by simp
next
  fix n :: ast and todo :: "ast list"
  have "sum_list (map size (iter_child_nodes n)) < size n"
    by (cases n) (simp add: size_list_conv_sum_list)
  then show "(todo @ iter_child_nodes n, n # todo) \<in> measure (\<lambda>q. sum_list (map size q))"
    by simp
qed

definition walk :: "ast \<Rightarrow> ast list" where
  "walk tree = walk_queue [tree]"

definition has_proper_docs :: "ast \<Rightarrow> bool" where
  "has_proper_docs node =
     (get_docstring node \<noteq> None \<and> 10 < length (strip (the (get_docstring node))))"

text \<open>The body of the loop of \<open>_parse_python\<close> for one node.\<close>

definition py_step :: "FileAnalysis \<Rightarrow> ast \<Rightarrow> FileAnalysis" where
  "py_step analysis node =
     (if node_kind node \<in> {FunctionDef, AsyncFunctionDef, ClassDef} \<and> \<not> has_proper_docs node
      then analysis\<lparr>needs_docs := True,
                     undocumented_items := undocumented_items analysis @
                       [\<lparr>item_type = (if node_kind node \<in> {FunctionDef, AsyncFunctionDef}
                                       then ''function'' else ''class''),
                         item_name = node_name node,
                         line = lineno node,
                         code = get_source_segment node\<rparr>]\<rparr>
      else analysis)"

text \<open>\<open>ast.parse\<close> is a parameter: \<open>None\<close> stands for the \<open>SyntaxError\<close> it raises.\<close>

definition parse_python :: "(string \<Rightarrow> ast option) \<Rightarrow> string \<Rightarrow> string \<Rightarrow> error + FileAnalysis" where
  "parse_python ast_parse content file_path =
     (case ast_parse content of
        None \<Rightarrow> Inl SyntaxError
      | Some tree \<Rightarrow>
          Inr (foldl py_step
                 \<lparr>path = file_path, language = Python, needs_docs = False,
                  original_content = content, undocumented_items = []\<rparr>
                 (walk tree)))"

subsection \<open>The order of the walk\<close>

text \<open>
  The nodes of a tree at a given depth, from left to right, and the tree depth by depth;
  the test of the loop of \<open>_parse_python\<close> and the item it appends for a node.
\<close>

fun nodes_at_depth :: "nat \<Rightarrow> ast \<Rightarrow> ast list" where
  "nodes_at_depth 0 t = [t]"
| "nodes_at_depth (Suc d) t = concat (map (nodes_at_depth d) (iter_child_nodes t))"




text \<open>The nodes at depth d of a queue of trees.\<close>

definition forest_level :: "nat \<Rightarrow> ast list \<Rightarrow> ast list" where
  "forest_level d q = concat (map (nodes_at_depth d) q)"

subsection \<open>Language by extension\<close>

text \<open>\<open>str.lower\<close> on the code points 0 to 255.\<close>

definition lower_char :: "char \<Rightarrow> char" where
  "lower_char c =
     (let n = ord c
      in if (65 \<le> n \<and> n \<le> 90) \<or> (192 \<le> n \<and> n \<le> 222 \<and> n \<noteq> 215) then char_of (n + 32) else c)"

definition lower :: "string \<Rightarrow> string" where
  "lower s = map lower_char s"

text \<open>\<open>Path(p).name\<close> of a POSIX path: the last component that is neither empty nor a
  single dot; empty when there is none.\<close>

definition path_name :: "string \<Rightarrow> string" where
  "path_name p =
     (let parts = filter (\<lambda>x. x \<noteq> [] \<and> x \<noteq> ''.'') (split_on (CHR ''/'') p)
      in if parts = [] then [] else last parts)"

text \<open>\<open>Path(p).suffix\<close>: the name from its last dot on, when that dot is neither the
  first nor the last character of the name.\<close>

definition suffix :: "string \<Rightarrow> string" where
  "suffix p =
     (let name = path_name p; i = rfind name (CHR ''.'')
      in if 0 < i \<and> i < int (length name) - 1 then drop (nat i) name else [])"

definition supported_languages :: "string \<rightharpoonup> language" where
  "supported_languages =
     [''.py'' \<mapsto> Python, ''.js'' \<mapsto> JavaScript, ''.ts'' \<mapsto> TypeScript,
      ''.jsx'' \<mapsto> JavaScript, ''.tsx'' \<mapsto> TypeScript]"

definition is_supported_file :: "string \<Rightarrow> bool" where
  "is_supported_file file_path = (lower (suffix file_path) \<in> dom supported_languages)"

definition parse_code :: "(string \<Rightarrow> ast option) \<Rightarrow> string \<Rightarrow> string \<Rightarrow> error + FileAnalysis" where
  "parse_code ast_parse content file_path =
     (let ext = lower (suffix file_path);
          lang = supported_languages ext
      in if lang = Some Python then parse_python ast_parse content file_path
         else if lang = Some JavaScript \<or> lang = Some TypeScript
         then Inr (parse_javascript content file_path (the lang))
         else Inr \<lparr>path = file_path, language = Unsupported, needs_docs = False,
                   original_content = [], undocumented_items = []\<rparr>)"

subsection \<open>The cache (utils/cache.py)\<close>

text \<open>
  The state of the \<open>CacheManager\<close>: \<open>pool\<close> is \<open>None\<close> without a connection and
  otherwise holds what the Redis server stores; \<open>redis_error\<close> says that the calls to the
  server raise \<open>RedisError\<close>; \<open>fallback_cache\<close> is the dictionary of the process.
  Pickling is the identity, and entries do not expire during a scan.
\<close>

record cache_manager =
  pool :: "(string \<rightharpoonup> FileAnalysis) option"
  redis_error :: bool
  fallback_cache :: "string \<rightharpoonup> FileAnalysis"

definition cache_get :: "cache_manager \<Rightarrow> string \<Rightarrow> FileAnalysis option" where
  "cache_get c key =
     (case pool c of
        None \<Rightarrow> None
      | Some store \<Rightarrow> if redis_error c then fallback_cache c key else store key)"

definition cache_set :: "cache_manager \<Rightarrow> string \<Rightarrow> FileAnalysis \<Rightarrow> cache_manager" where
  "cache_set c key v =
     (case pool c of
        None \<Rightarrow> c
      | Some store \<Rightarrow>
          if redis_error c then c\<lparr>fallback_cache := (fallback_cache c)(key \<mapsto> v)\<rparr>
          else c\<lparr>pool := Some (store(key \<mapsto> v))\<rparr>)"

subsection \<open>Walking the repository\<close>

text \<open>A \<open>ContentFile\<close> of the GitHub client, with the attributes the scanner reads.\<close>

record content_file =
  cf_path :: string
  cf_type :: string
  cf_sha :: string
  cf_encoding :: string
  cf_content :: string

text \<open>An entry of a listing, together with what \<open>repo.get_contents\<close> returns for its
  path when it is a directory.\<close>

datatype entry = Entry content_file "entry list"

text \<open>\<open>base64.b64decode(\<dots>).decode('utf-8')\<close> is a parameter; \<open>None\<close> stands for the
  exception of an undecodable content.\<close>

definition get_file_content :: "(string \<Rightarrow> string option) \<Rightarrow> content_file \<Rightarrow> error + string" where
  "get_file_content b64decode cf =
     (if cf_encoding cf = ''base64''
      then (case b64decode (cf_content cf) of None \<Rightarrow> Inl DecodeError | Some t \<Rightarrow> Inr t)
      else Inr (cf_content cf))"

text \<open>\<open>_analyze_file\<close>: the analysis (or \<open>None\<close>) and the cache after the call. A cached
  \<open>FileAnalysis\<close> object is true in \<open>if cached\<close>.\<close>

definition analyze_file ::
  "(string \<Rightarrow> ast option) \<Rightarrow> (string \<Rightarrow> string option) \<Rightarrow> string \<Rightarrow> cache_manager \<Rightarrow> content_file
     \<Rightarrow> error + (FileAnalysis option \<times> cache_manager)" where
  "analyze_file ast_parse b64decode full_name c cf =
     (if \<not> is_supported_file (cf_path cf) then Inr (None, c)
      else (let cache_key = ''analysis:'' @ full_name @ '':'' @ cf_sha cf
            in case cache_get c cache_key of
                 Some cached \<Rightarrow> Inr (Some cached, c)
               | None \<Rightarrow>
                   (case get_file_content b64decode cf of
                      Inl e \<Rightarrow> Inl e
                    | Inr content \<Rightarrow>
                        (case parse_code ast_parse content (cf_path cf) of
                           Inl e \<Rightarrow> Inl e
                         | Inr analysis \<Rightarrow> Inr (Some analysis, cache_set c cache_key analysis)))))"

text \<open>\<open>_process_directory\<close> on the listing of a directory: the dictionary \<open>results\<close>
  and the cache are passed through; an exception ends the loop.\<close>

fun process_directory ::
  "(string \<Rightarrow> ast option) \<Rightarrow> (string \<Rightarrow> string option) \<Rightarrow> string \<Rightarrow> entry list
     \<Rightarrow> (string \<rightharpoonup> FileAnalysis) \<times> cache_manager
     \<Rightarrow> error + ((string \<rightharpoonup> FileAnalysis) \<times> cache_manager)" where
  "process_directory ast_parse b64decode full_name [] st = Inr st"
| "process_directory ast_parse b64decode full_name (Entry cf listing # rest) (results, c) =
     (if cf_type cf = ''dir''
      then (case process_directory ast_parse b64decode full_name listing (results, c) of
              Inl e \<Rightarrow> Inl e
            | Inr st' \<Rightarrow> process_directory ast_parse b64decode full_name rest st')
      else (case analyze_file ast_parse b64decode full_name c cf of
              Inl e \<Rightarrow> Inl e
            | Inr (analysis, c') \<Rightarrow>
                process_directory ast_parse b64decode full_name rest
                  (case analysis of
                     None \<Rightarrow> results
                   | Some a \<Rightarrow> results(cf_path cf \<mapsto> a), c')))"

text \<open>\<open>scan_repository\<close>: its loop over the root listing has the body of the loop of
  \<open>_process_directory\<close> and starts from an empty dictionary.\<close>

definition scan_repository ::
  "(string \<Rightarrow> ast option) \<Rightarrow> (string \<Rightarrow> string option) \<Rightarrow> string \<Rightarrow> entry list \<Rightarrow> cache_manager
     \<Rightarrow> error + ((string \<rightharpoonup> FileAnalysis) \<times> cache_manager)" where
  "scan_repository ast_parse b64decode full_name root c =
     process_directory ast_parse b64decode full_name root (Map.empty, c)"

text \<open>The files of a listing in the order in which the walk reaches them.\<close>

fun files :: "entry list \<Rightarrow> content_file list" where
  "files [] = []"
| "files (Entry cf listing # rest) =
     (if cf_type cf = ''dir'' then files listing @ files rest else cf # files rest)"

section \<open>The documenter (documenter.py)\<close>

text \<open>\<open>str\<close> of the \<open>code\<close> of an item inside an f-string.\<close>

definition format_code :: "string option \<Rightarrow> string" where
  "format_code c = (case c of None \<Rightarrow> ''None'' | Some t \<Rightarrow> t)"

text \<open>The f-string of \<open>_build_python_prompts\<close> for an item with the code \<open>c\<close>.\<close>

definition python_prompt :: "string option \<Rightarrow> string" where
  "python_prompt c =
     ''\<newline>''
       @ ''            Add comprehensive Python docstring to:\<newline>''
       @ ''            ''
       @ format_code c
       @ ''\<newline>''
       @ ''            \<newline>''
       @ ''            Requirements:\<newline>''
       @ ''            1. Google-style docstring format\<newline>''
       @ ''            2. Describe purpose clearly\<newline>''
       @ ''            3. Document all parameters with types\<newline>''
       @ ''            4. Document return value with type\<newline>''
       @ ''            5. Include 1-2 usage examples\<newline>''
       @ ''            6. Mention exceptions if applicable\<newline>''
       @ ''            ''"

text \<open>The f-string of \<open>_build_js_prompts\<close>.\<close>

definition js_prompt :: "string option \<Rightarrow> string" where
  "js_prompt c =
     ''\<newline>''
       @ ''            Add comprehensive JSDoc documentation to:\<newline>''
       @ ''            ''
       @ format_code c
       @ ''\<newline>''
       @ ''            \<newline>''
       @ ''            Requirements:\<newline>''
       @ ''            1. Proper JSDoc syntax with @ tags\<newline>''
       @ ''            2. Describe function purpose\<newline>''
       @ ''            3. Document all parameters with @param\<newline>''
       @ ''            4. Document return value with @returns\<newline>''
       @ ''            5. Include type information where possible\<newline>''
       @ ''            6. Add 1 usage example\<newline>''
       @ ''            ''"

text \<open>The f-string of \<open>_build_ts_prompts\<close>.\<close>

definition ts_prompt :: "string option \<Rightarrow> string" where
  "ts_prompt c =
     ''\<newline>''
       @ ''            Add comprehensive TypeScript documentation to:\<newline>''
       @ ''            ''
       @ format_code c
       @ ''\<newline>''
       @ ''            \<newline>''
       @ ''            Requirements:\<newline>''
       @ ''            1. TSDoc format with type information\<newline>''
       @ ''            2. Describe function/class purpose\<newline>''
       @ ''            3. Document all parameters with types\<newline>''
       @ ''            4. Document return type\<newline>''
       @ ''            5. Include generics if applicable\<newline>''
       @ ''            6. Add 1 usage example\<newline>''
       @ ''            7. Mark @public/@private appropriately\<newline>''
       @ ''            ''"

text \<open>The three \<open>_build_\<dots>_prompts\<close>: a dictionary from the name of an item to its
  prompt; a later item replaces an earlier one of the same name.\<close>

definition build_prompts :: "(string option \<Rightarrow> string) \<Rightarrow> FileAnalysis \<Rightarrow> (string \<rightharpoonup> string)" where
  "build_prompts prompt analysis =
     foldl (\<lambda>prompts item. prompts(item_name item \<mapsto> prompt (code item)))
       Map.empty (undocumented_items analysis)"

definition build_python_prompts :: "FileAnalysis \<Rightarrow> (string \<rightharpoonup> string)" where
  "build_python_prompts = build_prompts python_prompt"

definition build_js_prompts :: "FileAnalysis \<Rightarrow> (string \<rightharpoonup> string)" where
  "build_js_prompts = build_prompts js_prompt"

definition build_ts_prompts :: "FileAnalysis \<Rightarrow> (string \<rightharpoonup> string)" where
  "build_ts_prompts = build_prompts ts_prompt"

text \<open>
  The loop of the three handlers. \<open>_get_ai_response\<close> is the parameter \<open>ai\<close>, from the
  prompt to the text of the model; \<open>ins\<close> is the insertion function of the language.
\<close>

fun handle_items ::
  "(string \<Rightarrow> undocumented_item \<Rightarrow> string \<Rightarrow> error + string) \<Rightarrow> (string \<Rightarrow> string)
     \<Rightarrow> (string \<rightharpoonup> string) \<Rightarrow> undocumented_item list \<Rightarrow> string \<Rightarrow> error + string" where
  "handle_items ins ai prompts [] documented_code = Inr documented_code"
| "handle_items ins ai prompts (item # items) documented_code =
     (case prompts (item_name item) of
        None \<Rightarrow> Inl KeyError
      | Some prompt \<Rightarrow>
          (case ins documented_code item (ai prompt) of
             Inl e \<Rightarrow> Inl e
           | Inr d \<Rightarrow> handle_items ins ai prompts items d))"

definition handle_python :: "(string \<Rightarrow> string) \<Rightarrow> FileAnalysis \<Rightarrow> error + string" where
  "handle_python ai analysis =
     handle_items insert_python_docs ai (build_python_prompts analysis)
       (undocumented_items analysis) (original_content analysis)"

definition handle_javascript :: "(string \<Rightarrow> string) \<Rightarrow> FileAnalysis \<Rightarrow> error + string" where
  "handle_javascript ai analysis =
     handle_items insert_js_docs ai (build_js_prompts analysis)
       (undocumented_items analysis) (original_content analysis)"

definition handle_typescript :: "(string \<Rightarrow> string) \<Rightarrow> FileAnalysis \<Rightarrow> error + string" where
  "handle_typescript ai analysis =
     handle_items insert_ts_docs ai (build_ts_prompts analysis)
       (undocumented_items analysis) (original_content analysis)"

definition handle_generic :: "(string \<Rightarrow> string) \<Rightarrow> FileAnalysis \<Rightarrow> error + string" where
  "handle_generic ai analysis = Inr (original_content analysis)"

definition generate_documentation :: "(string \<Rightarrow> string) \<Rightarrow> FileAnalysis \<Rightarrow> error + string" where
  "generate_documentation ai analysis =
     (if \<not> needs_docs analysis then Inr (original_content analysis)
      else (case language analysis of
              Python \<Rightarrow> handle_python ai analysis
            | JavaScript \<Rightarrow> handle_javascript ai analysis
            | TypeScript \<Rightarrow> handle_typescript ai analysis
            | Unsupported \<Rightarrow> handle_generic ai analysis))"

section \<open>Example inputs\<close>

text \<open>
  Inputs for the concrete scenarios: a parser that returns a given tree, a generation
  service that gives the same text for every prompt, and the syntax trees that \<open>ast.parse\<close>
  builds for two small files. Nodes other than definitions carry only their line and
  children, which is all the scanner reads of them.
\<close>

definition parses_to :: "ast \<Rightarrow> string \<Rightarrow> ast option" where
  "parses_to tree content = Some tree"

definition fixed_reply :: "string \<Rightarrow> string \<Rightarrow> string" where
  "fixed_reply text prompt = text"

definition other :: "int \<Rightarrow> ast list \<Rightarrow> ast" where
  "other l cs = Node OtherNode [] l None None cs"

definition add_source :: string where
  "add_source = ''def add(a, b):\<newline>    return a + b\<newline>''"

definition add_tree :: ast where
  "add_tree =
     other 0
       [Node FunctionDef ''add'' 1 None (Some ''def add(a, b):\<newline>    return a + b'')
          [other 0 [other 1 [], other 1 []],
           other 2 [other 2 [other 2 [other 0 []], other 0 [], other 2 [other 0 []]]]]]"

definition two_defs_source :: string where
  "two_defs_source = ''def f():\<newline>    pass\<newline>def g():\<newline>    pass\<newline>''"

definition two_defs_tree :: ast where
  "two_defs_tree =
     other 0
       [Node FunctionDef ''f'' 1 None (Some ''def f():\<newline>    pass'') [other 0 [], other 2 []],
        Node FunctionDef ''g'' 3 None (Some ''def g():\<newline>    pass'') [other 0 [], other 4 []]]"

text \<open>A base64 decoder that gives a fixed text, a cache manager without connection, a
  file entry, the analysis of the file \<open>example.py\<close>, and a parser that rejects every
  content.\<close>

definition decodes_to :: "string \<Rightarrow> string \<Rightarrow> string option" where
  "decodes_to text content = Some text"

definition no_cache :: cache_manager where
  "no_cache = \<lparr>pool = None, redis_error = False, fallback_cache = Map.empty\<rparr>"

definition file_entry :: "string \<Rightarrow> string \<Rightarrow> entry" where
  "file_entry file_path sha_text =
     Entry \<lparr>cf_path = file_path, cf_type = ''file'', cf_sha = sha_text,
            cf_encoding = ''base64'', cf_content = []\<rparr> []"

definition add_analysis :: FileAnalysis where
  "add_analysis =
     \<lparr>path = ''example.py'', language = Python, needs_docs = True,
      original_content = add_source,
      undocumented_items =
        [\<lparr>item_type = ''function'', item_name = ''add'', line = 1,
          code = Some ''def add(a, b):\<newline>    return a + b''\<rparr>]\<rparr>"

definition rejects :: "string \<Rightarrow> ast option" where
  "rejects content = None"



section \<open>Properties of the string functions\<close>
















section \<open>Insertion and the lines of the file\<close>




section \<open>Kinds of the items of JavaScript and TypeScript files\<close>

lemma js_step_items_function:
  "\<forall>i \<in> set (undocumented_items a). item_type i = ''function'' \<Longrightarrow>
   \<forall>i \<in> set (undocumented_items (js_step content a m)). item_type i = ''function''"
  by (simp add: js_step_def Let_def)

lemma foldl_js_step_items_function:
  "\<forall>i \<in> set (undocumented_items a). item_type i = ''function'' \<Longrightarrow>
   \<forall>i \<in> set (undocumented_items (foldl (js_step content) a ms)). item_type i = ''function''"
proof (induction ms arbitrary: a)
  case Nil
  then show ?case by simp
next
  case (Cons m ms)
  from Cons.prems have "\<forall>i \<in> set (undocumented_items (js_step content a m)). item_type i = ''function''"
    by (rule js_step_items_function)
  then show ?case using Cons.IH by simp
qed

text \<open>
  Claim C10. Every item that the extraction of a JavaScript or TypeScript content
  produces has the type \<open>function\<close>, also when the matched declaration starts with
  \<open>class\<close>.
\<close>

theorem javascript_items_are_functions:
  "\<forall>item \<in> set (undocumented_items (parse_javascript content file_path lang)).
     item_type item = ''function''"
  unfolding parse_javascript_def
  by (rule foldl_js_step_items_function) simp

theorem javascript_items_are_functions_witness:
  "\<lparr>item_type = ''function'', item_name = ''Shape'', line = 1, code = Some ''class Shape(options)''\<rparr>
     \<in> set (undocumented_items (parse_javascript ''class Shape(options) {}'' ''shape.ts'' TypeScript))
   \<and> item_type \<lparr>item_type = ''function'', item_name = ''Shape'', line = 1, code = Some ''class Shape(options)''\<rparr>
       = ''function''"
proof -
  have items: "undocumented_items (parse_javascript ''class Shape(options) {}'' ''shape.ts'' TypeScript)
      = [\<lparr>item_type = ''function'', item_name = ''Shape'', line = 1, code = Some ''class Shape(options)''\<rparr>]"
    by code_simp
  have mem: "\<lparr>item_type = ''function'', item_name = ''Shape'', line = 1, code = Some ''class Shape(options)''\<rparr>
     \<in> set (undocumented_items (parse_javascript ''class Shape(options) {}'' ''shape.ts'' TypeScript))"
    unfolding items by simp
  from javascript_items_are_functions [of "''class Shape(options) {}''" "''shape.ts''" TypeScript] mem
  show ?thesis by blast
qed

section \<open>The docstring threshold\<close>

text \<open>
  Claim C7. A node has proper documentation exactly when it has a docstring whose
  trimmed length exceeds 10. A function or class whose docstring has a trimmed length of
  at most 10 is appended to the undocumented items; with a trimmed length of 11 or more
  the analysis is left as it was.
\<close>

theorem docstring_threshold:
  "(has_proper_docs node \<longleftrightarrow> (\<exists>d. get_docstring node = Some d \<and> 10 < length (strip d)))
   \<and> (node_kind node \<in> {FunctionDef, AsyncFunctionDef, ClassDef} \<and> get_docstring node = Some d
        \<and> length (strip d) \<le> 10
      \<longrightarrow> needs_docs (py_step analysis node)
          \<and> undocumented_items (py_step analysis node) =
              undocumented_items analysis @
                [\<lparr>item_type = (if node_kind node = ClassDef then ''class'' else ''function''),
                  item_name = node_name node, line = lineno node, code = get_source_segment node\<rparr>])
   \<and> (get_docstring node = Some d \<and> 11 \<le> length (strip d) \<longrightarrow> py_step analysis node = analysis)"
  by (cases "node_kind node") (auto simp: has_proper_docs_def py_step_def)

theorem docstring_threshold_witness:
  "length (strip '' Adds a, b. '') = 10
   \<and> \<not> has_proper_docs (Node FunctionDef ''add'' 1 (Some '' Adds a, b. '') None [])
   \<and> undocumented_items
         (py_step \<lparr>path = ''example.py'', language = Python, needs_docs = False,
                   original_content = [], undocumented_items = []\<rparr>
            (Node FunctionDef ''add'' 1 (Some '' Adds a, b. '') None []))
       = [\<lparr>item_type = ''function'', item_name = ''add'', line = 1, code = None\<rparr>]
   \<and> length (strip ''Adds a + b.'') = 11
   \<and> has_proper_docs (Node FunctionDef ''add'' 1 (Some ''Adds a + b.'') None [])
   \<and> py_step \<lparr>path = ''example.py'', language = Python, needs_docs = False,
                 original_content = [], undocumented_items = []\<rparr>
          (Node FunctionDef ''add'' 1 (Some ''Adds a + b.'') None [])
       = \<lparr>path = ''example.py'', language = Python, needs_docs = False,
          original_content = [], undocumented_items = []\<rparr>"
proof -
  let ?a = "\<lparr>path = ''example.py'', language = Python, needs_docs = False,
             original_content = [], undocumented_items = []\<rparr>"
  let ?n10 = "Node FunctionDef ''add'' 1 (Some '' Adds a, b. '') None []"
  let ?n11 = "Node FunctionDef ''add'' 1 (Some ''Adds a + b.'') None []"
  have l10: "length (strip '' Adds a, b. '') = 10" by code_simp
  have l11: "length (strip ''Adds a + b.'') = 11" by code_simp
  have h10: "node_kind ?n10 \<in> {FunctionDef, AsyncFunctionDef, ClassDef}
             \<and> get_docstring ?n10 = Some '' Adds a, b. '' \<and> length (strip '' Adds a, b. '') \<le> 10"
    using l10 by simp
  have h11: "get_docstring ?n11 = Some ''Adds a + b.'' \<and> 11 \<le> length (strip ''Adds a + b.'')"
    using l11 by simp
  note t10 = docstring_threshold [of ?n10 "'' Adds a, b. ''" ?a]
  note t11 = docstring_threshold [of ?n11 "''Adds a + b.''" ?a]
  have a: "\<not> has_proper_docs ?n10"
    using t10 l10 by simp
  have b: "undocumented_items (py_step ?a ?n10)
       = [\<lparr>item_type = ''function'', item_name = ''add'', line = 1, code = None\<rparr>]"
    using t10 h10 by simp
  have c: "has_proper_docs ?n11"
    using t11 l11 by simp
  have d: "py_step ?a ?n11 = ?a"
    using t11 h11 by blast
  from l10 a b l11 c d show ?thesis by blast
qed

section \<open>Concrete scenarios\<close>

text \<open>
  Claim C2. For the file \<open>def add(a, b): return a + b\<close> the analysis has the single item
  (function, add, line 1). Inserting the text ``Adds two numbers.'' puts the docstring
  block after line 1 and keeps the return line, but the block carries the indentation of
  the \<open>def\<close> line, which is empty, not four spaces.
\<close>

theorem add_example_docstring_not_indented:
  "parse_python (parses_to add_tree) add_source ''example.py''
     = Inr \<lparr>path = ''example.py'', language = Python, needs_docs = True,
            original_content = add_source,
            undocumented_items =
              [\<lparr>item_type = ''function'', item_name = ''add'', line = 1,
                code = Some ''def add(a, b):\<newline>    return a + b''\<rparr>]\<rparr>
   \<and> map_sum id splitlines
        (insert_python_docs add_source
           \<lparr>item_type = ''function'', item_name = ''add'', line = 1,
            code = Some ''def add(a, b):\<newline>    return a + b''\<rparr>
           ''Adds two numbers.'')
     = Inr [''def add(a, b):'',
            replicate 3 dquote @ ''Adds two numbers.'',
            replicate 3 dquote,
            ''    return a + b'']"
  by code_simp

text \<open>
  Claim C1. For a file with the two undocumented functions \<open>f\<close> (line 1) and \<open>g\<close>
  (line 3) the handler inserts in the order of the items, first for \<open>f\<close>, and uses line 3
  of the already changed text for \<open>g\<close>: the block of \<open>g\<close> lands behind the block of
  \<open>f\<close>, and the line \<open>def g():\<close> is followed by its body without a docstring.
\<close>

theorem handle_python_misplaces_second_docstring:
  "map line (undocumented_items (projr (parse_python (parses_to two_defs_tree) two_defs_source ''example.py'')))
     = [1, 3]
   \<and> map_sum id splitlines
        (handle_python (fixed_reply ''Doc.'')
           (projr (parse_python (parses_to two_defs_tree) two_defs_source ''example.py'')))
     = Inr [''def f():'',
            replicate 3 dquote @ ''Doc.'',
            replicate 3 dquote,
            replicate 3 dquote @ ''Doc.'',
            replicate 3 dquote,
            ''    pass'',
            ''def g():'',
            ''    pass'']"
  by code_simp

text \<open>
  Claim C3. For the file \<open>function add(a, b) {}\<close> the extraction gives one item; the
  JavaScript handler inserts the block comment before the declaration; extracting again
  from the result still gives the item for \<open>add\<close>, now at line 4.
\<close>

theorem inserted_jsdoc_is_not_recognised:
  "undocumented_items (parse_javascript ''function add(a, b) {}\<newline>'' ''add.js'' JavaScript)
     = [\<lparr>item_type = ''function'', item_name = ''add'', line = 1, code = Some ''function add(a, b)''\<rparr>]
   \<and> handle_javascript (fixed_reply ''Adds two numbers.'')
        (parse_javascript ''function add(a, b) {}\<newline>'' ''add.js'' JavaScript)
     = Inr ''/**\<newline> * Adds two numbers.\<newline> */\<newline>function add(a, b) {}''
   \<and> undocumented_items
        (parse_javascript ''/**\<newline> * Adds two numbers.\<newline> */\<newline>function add(a, b) {}'' ''add.js'' JavaScript)
     = [\<lparr>item_type = ''function'', item_name = ''add'', line = 4, code = Some ''function add(a, b)''\<rparr>]"
  by code_simp

text \<open>
  Claim C6. A block comment \<open>/** ... */\<close> that spans several lines directly before a
  declaration is not found by \<open>has_jsdoc\<close>, which searches only the last non-blank line
  before the declaration: the unit is reported as undocumented. A comment on one line is
  found.
\<close>

theorem multiline_jsdoc_not_detected:
  "has_jsdoc ''/**\<newline> * Sums two numbers.\<newline> * @returns the sum\<newline> */\<newline>'' = False
   \<and> undocumented_items
        (parse_javascript
           ''/**\<newline> * Sums two numbers.\<newline> * @returns the sum\<newline> */\<newline>export function sum(a, b) {}\<newline>''
           ''sum.js'' JavaScript)
     = [\<lparr>item_type = ''function'', item_name = ''sum'', line = 5,
         code = Some ''export function sum(a, b)''\<rparr>]
   \<and> undocumented_items
        (parse_javascript ''/** doc */\<newline>export function foo() {}\<newline>'' ''foo.js'' JavaScript) = []"
  by code_simp

section \<open>Files with an unsupported extension\<close>

lemma analyze_file_supported:
  "analyze_file ast_parse b64decode full_name c cf = Inr (Some a, c') \<Longrightarrow> is_supported_file (cf_path cf)"
  by (auto simp: analyze_file_def split: if_splits)

lemma process_directory_dom:
  "process_directory ast_parse b64decode full_name es st = Inr st' \<Longrightarrow>
   dom (fst st') \<subseteq> dom (fst st) \<union> {p. is_supported_file p}"
proof (induction ast_parse b64decode full_name es st arbitrary: st' rule: process_directory.induct)
  case (1 ast_parse b64decode full_name st)
  then show ?case by auto
next
  case (2 ast_parse b64decode full_name cf listing rest results c)
  show ?case
  proof (cases "cf_type cf = ''dir''")
    case True
    with "2.prems" obtain st1 where
      s1: "process_directory ast_parse b64decode full_name listing (results, c) = Inr st1" and
      s2: "process_directory ast_parse b64decode full_name rest st1 = Inr st'"
      by (auto split: sum.splits)
    from "2.IH"(1) [OF True s1] have d1: "dom (fst st1) \<subseteq> dom results \<union> {p. is_supported_file p}"
      by simp
    from "2.IH"(2) [OF True s1 s2] have "dom (fst st') \<subseteq> dom (fst st1) \<union> {p. is_supported_file p}" .
    with d1 show ?thesis by fastforce
  next
    case False
    with "2.prems" obtain analysis c1 where
      a: "analyze_file ast_parse b64decode full_name c cf = Inr (analysis, c1)" and
      r: "process_directory ast_parse b64decode full_name rest
            (case analysis of None \<Rightarrow> results | Some x \<Rightarrow> results(cf_path cf \<mapsto> x), c1) = Inr st'"
      by (auto split: sum.splits)
    have "dom (fst st') \<subseteq> dom (case analysis of None \<Rightarrow> results | Some x \<Rightarrow> results(cf_path cf \<mapsto> x))
             \<union> {p. is_supported_file p}"
      using "2.IH"(3) [OF False a refl r] by simp
    moreover have "dom (case analysis of None \<Rightarrow> results | Some x \<Rightarrow> results(cf_path cf \<mapsto> x))
             \<subseteq> dom results \<union> {p. is_supported_file p}"
      using a by (cases analysis) (auto dest: analyze_file_supported)
    ultimately show ?thesis by fastforce
  qed
qed

lemma dom_supported_languages:
  "dom supported_languages = {''.py'', ''.js'', ''.jsx'', ''.ts'', ''.tsx''}"
  by (auto simp: supported_languages_def)

text \<open>
  Claim C9. The mapping that a scan returns has no entry for a path whose extension, in
  lower case, is not one of \<open>.py\<close>, \<open>.js\<close>, \<open>.jsx\<close>, \<open>.ts\<close>, \<open>.tsx\<close>: such files are left
  out, not listed with \<open>needs_docs = False\<close>. In the witness a listing with \<open>README.md\<close>
  and \<open>example.py\<close> gives a mapping whose only key is \<open>example.py\<close>.
\<close>

theorem scan_omits_unsupported_files:
  assumes "scan_repository ast_parse b64decode full_name root c = Inr (results, c')"
      and "lower (suffix file_path) \<notin> {''.py'', ''.js'', ''.jsx'', ''.ts'', ''.tsx''}"
  shows "results file_path = None"
proof -
  from assms(1) have "dom results \<subseteq> {p. is_supported_file p}"
    unfolding scan_repository_def using process_directory_dom by fastforce
  moreover from assms(2) have "\<not> is_supported_file file_path"
    by (simp add: is_supported_file_def dom_supported_languages)
  ultimately show ?thesis by auto
qed

theorem scan_omits_unsupported_files_witness:
  "scan_repository (parses_to add_tree) (decodes_to add_source) ''octo/demo''
       [file_entry ''README.md'' ''3b18e5'', file_entry ''example.py'' ''7c4a8d''] no_cache
     = Inr ([''example.py'' \<mapsto> add_analysis], no_cache)
   \<and> lower (suffix ''README.md'') \<notin> {''.py'', ''.js'', ''.jsx'', ''.ts'', ''.tsx''}
   \<and> [''example.py'' \<mapsto> add_analysis] ''README.md'' = None
   \<and> dom [''example.py'' \<mapsto> add_analysis] = {''example.py''}"
proof -
  have md: "is_supported_file ''README.md'' = False" by code_simp
  have py: "is_supported_file ''example.py'' = True" by code_simp
  have ext: "lower (suffix ''README.md'') \<notin> {''.py'', ''.js'', ''.jsx'', ''.ts'', ''.tsx''}"
    by code_simp
  have pc: "parse_code (parses_to add_tree) add_source ''example.py'' = Inr add_analysis"
    by code_simp
  have scan: "scan_repository (parses_to add_tree) (decodes_to add_source) ''octo/demo''
       [file_entry ''README.md'' ''3b18e5'', file_entry ''example.py'' ''7c4a8d''] no_cache
     = Inr ([''example.py'' \<mapsto> add_analysis], no_cache)"
    by (simp add: scan_repository_def file_entry_def analyze_file_def md py pc no_cache_def
          cache_get_def cache_set_def get_file_content_def decodes_to_def)
  from scan_omits_unsupported_files [OF scan ext] scan ext show ?thesis by simp
qed

section \<open>A file that does not parse\<close>

lemma cache_get_set_other:
  "k \<noteq> k' \<Longrightarrow> cache_get (cache_set c k' v) k = cache_get c k"
  by (auto simp: cache_get_def cache_set_def split: option.splits)

lemma analyze_file_other_key:
  assumes "analyze_file ast_parse b64decode full_name c f = Inr (a, c1)"
      and "cf_sha f \<noteq> s"
  shows "cache_get c1 (''analysis:'' @ full_name @ '':'' @ s)
           = cache_get c (''analysis:'' @ full_name @ '':'' @ s)"
  using assms
  by (auto simp: analyze_file_def Let_def cache_get_set_other split: if_splits option.splits sum.splits)

lemma analyze_file_parse_failure:
  assumes "supported_languages (lower (suffix (cf_path cf))) = Some Python"
      and "get_file_content b64decode cf = Inr content"
      and "ast_parse content = None"
      and "cache_get c (''analysis:'' @ full_name @ '':'' @ cf_sha cf) = None"
  shows "analyze_file ast_parse b64decode full_name c cf = Inl SyntaxError"
proof -
  from assms(1) have "is_supported_file (cf_path cf)"
    by (auto simp: is_supported_file_def)
  moreover have "parse_code ast_parse content (cf_path cf) = Inl SyntaxError"
    using assms(1,3) by (simp add: parse_code_def parse_python_def)
  ultimately show ?thesis
    using assms(2,4) by (simp add: analyze_file_def)
qed

lemma process_directory_parse_failure:
  assumes "process_directory ast_parse b64decode full_name es st = Inr st'"
      and "supported_languages (lower (suffix (cf_path cf))) = Some Python"
      and "get_file_content b64decode cf = Inr content"
      and "ast_parse content = None"
      and "cache_get (snd st) (''analysis:'' @ full_name @ '':'' @ cf_sha cf) = None"
      and "\<forall>f \<in> set (files es). cf_sha f = cf_sha cf \<longrightarrow> f = cf"
  shows "cf \<notin> set (files es)
         \<and> cache_get (snd st') (''analysis:'' @ full_name @ '':'' @ cf_sha cf) = None"
  using assms
proof (induction ast_parse b64decode full_name es st arbitrary: st' rule: process_directory.induct)
  case (1 ast_parse b64decode full_name st)
  then show ?case by auto
next
  case (2 ast_parse b64decode full_name f listing rest results c)
  let ?k = "''analysis:'' @ full_name @ '':'' @ cf_sha cf"
  show ?case
  proof (cases "cf_type f = ''dir''")
    case True
    with "2.prems"(1) obtain st1 where
      s1: "process_directory ast_parse b64decode full_name listing (results, c) = Inr st1" and
      s2: "process_directory ast_parse b64decode full_name rest st1 = Inr st'"
      by (auto split: sum.splits)
    from "2.prems"(6) True have u1: "\<forall>g \<in> set (files listing). cf_sha g = cf_sha cf \<longrightarrow> g = cf"
      and u2: "\<forall>g \<in> set (files rest). cf_sha g = cf_sha cf \<longrightarrow> g = cf"
      by auto
    from "2.IH"(1) [OF True s1 "2.prems"(2,3,4,5) u1]
    have a1: "cf \<notin> set (files listing)" and c1: "cache_get (snd st1) ?k = None" by auto
    from "2.IH"(2) [OF True s1 s2 "2.prems"(2,3,4) c1 u2]
    have a2: "cf \<notin> set (files rest)" and c2: "cache_get (snd st') ?k = None" by auto
    from a1 a2 c2 True show ?thesis by simp
  next
    case False
    with "2.prems"(1) obtain analysis c1 where
      a: "analyze_file ast_parse b64decode full_name c f = Inr (analysis, c1)" and
      r: "process_directory ast_parse b64decode full_name rest
            (case analysis of None \<Rightarrow> results | Some x \<Rightarrow> results(cf_path f \<mapsto> x), c1) = Inr st'"
      by (auto split: sum.splits)
    have ne: "f \<noteq> cf"
    proof
      assume "f = cf"
      with analyze_file_parse_failure [where ast_parse = ast_parse and content = content
          and cf = cf and b64decode = b64decode and c = c and full_name = full_name]
        "2.prems"(2,3,4,5) a
      show False by simp
    qed
    from "2.prems"(6) False ne have sha: "cf_sha f \<noteq> cf_sha cf" by auto
    from analyze_file_other_key [OF a sha] "2.prems"(5)
    have c1: "cache_get c1 ?k = None" by simp
    from "2.prems"(6) False have u: "\<forall>g \<in> set (files rest). cf_sha g = cf_sha cf \<longrightarrow> g = cf"
      by auto
    from "2.IH"(3) [OF False a refl r "2.prems"(2,3,4) _ u] c1
    have "cf \<notin> set (files rest)" and "cache_get (snd st') ?k = None" by auto
    with ne False show ?thesis by simp
  qed
qed

text \<open>
  Claim C5, as amended. A Python file whose content does not parse is not a file-scoped
  error. When the cache has no analysis under the key of the file and no other file of
  the tree has its sha, the exception leaves \<open>scan_repository\<close>: the scan returns an error
  and no mapping, neither for this file nor for any other.
\<close>

theorem parse_failure_aborts_scan:
  assumes "cf \<in> set (files root)"
      and "supported_languages (lower (suffix (cf_path cf))) = Some Python"
      and "get_file_content b64decode cf = Inr content"
      and "ast_parse content = None"
      and "cache_get c (''analysis:'' @ full_name @ '':'' @ cf_sha cf) = None"
      and "\<forall>f \<in> set (files root). cf_sha f = cf_sha cf \<longrightarrow> f = cf"
  shows "\<exists>e. scan_repository ast_parse b64decode full_name root c = Inl e"
proof (cases "scan_repository ast_parse b64decode full_name root c")
  case (Inl e)
  then show ?thesis by blast
next
  case (Inr st')
  then have "process_directory ast_parse b64decode full_name root (Map.empty, c) = Inr st'"
    by (simp add: scan_repository_def)
  from process_directory_parse_failure [where ast_parse = ast_parse and content = content
      and cf = cf and b64decode = b64decode and st = "(Map.empty, c)" and full_name = full_name
      and es = root and st' = st'] this assms
  show ?thesis by simp
qed

text \<open>
  Claim C5 as stated fails: a scan of \<open>util.js\<close> and \<open>broken.py\<close>, where the content of
  \<open>broken.py\<close> does not parse, returns the syntax error and no results for \<open>util.js\<close>.
\<close>

theorem parse_failure_is_not_file_scoped:
  "scan_repository rejects (decodes_to ''def broken(:'') ''octo/demo''
       [file_entry ''util.js'' ''b2c1d0'', file_entry ''broken.py'' ''a94a8f''] no_cache
     = Inl SyntaxError"
proof -
  have js: "is_supported_file ''util.js'' = True" by code_simp
  have py: "is_supported_file ''broken.py'' = True" by code_simp
  have pj: "isl (parse_code rejects ''def broken(:'' ''util.js'') = False" by code_simp
  have pp: "parse_code rejects ''def broken(:'' ''broken.py'' = Inl SyntaxError" by code_simp
  from pj obtain a where pj': "parse_code rejects ''def broken(:'' ''util.js'' = Inr a"
    by (cases "parse_code rejects ''def broken(:'' ''util.js''") auto
  show ?thesis
    by (simp add: scan_repository_def file_entry_def analyze_file_def js py pj' pp no_cache_def
          cache_get_def cache_set_def get_file_content_def decodes_to_def)
qed

theorem parse_failure_aborts_scan_witness:
  "\<lparr>cf_path = ''broken.py'', cf_type = ''file'', cf_sha = ''a94a8f'',
     cf_encoding = ''base64'', cf_content = []\<rparr>
     \<in> set (files [file_entry ''util.js'' ''b2c1d0'', file_entry ''broken.py'' ''a94a8f''])
   \<and> supported_languages (lower (suffix ''broken.py'')) = Some Python
   \<and> get_file_content (decodes_to ''def broken(:'')
         \<lparr>cf_path = ''broken.py'', cf_type = ''file'', cf_sha = ''a94a8f'',
          cf_encoding = ''base64'', cf_content = []\<rparr> = Inr ''def broken(:''
   \<and> rejects ''def broken(:'' = None
   \<and> cache_get no_cache (''analysis:'' @ ''octo/demo'' @ '':'' @ ''a94a8f'') = None
   \<and> (\<exists>e. scan_repository rejects (decodes_to ''def broken(:'') ''octo/demo''
              [file_entry ''util.js'' ''b2c1d0'', file_entry ''broken.py'' ''a94a8f''] no_cache
            = Inl e)"
proof -
  let ?cf = "\<lparr>cf_path = ''broken.py'', cf_type = ''file'', cf_sha = ''a94a8f'',
              cf_encoding = ''base64'', cf_content = []\<rparr>"
  let ?root = "[file_entry ''util.js'' ''b2c1d0'', file_entry ''broken.py'' ''a94a8f'']"
  have fs: "files ?root =
      [\<lparr>cf_path = ''util.js'', cf_type = ''file'', cf_sha = ''b2c1d0'',
         cf_encoding = ''base64'', cf_content = []\<rparr>, ?cf]"
    by (simp add: file_entry_def)
  have h1: "?cf \<in> set (files ?root)" unfolding fs by simp
  have h2: "supported_languages (lower (suffix (cf_path ?cf))) = Some Python" by code_simp
  have h3: "get_file_content (decodes_to ''def broken(:'') ?cf = Inr ''def broken(:''"
    by (simp add: get_file_content_def decodes_to_def)
  have h4: "rejects ''def broken(:'' = None" by (simp add: rejects_def)
  have h5: "cache_get no_cache (''analysis:'' @ ''octo/demo'' @ '':'' @ cf_sha ?cf) = None"
    by (simp add: cache_get_def no_cache_def)
  have h6: "\<forall>f \<in> set (files ?root). cf_sha f = cf_sha ?cf \<longrightarrow> f = ?cf"
    unfolding fs by simp
  from parse_failure_aborts_scan [where ast_parse = rejects and content = "''def broken(:''"
      and cf = ?cf and b64decode = "decodes_to ''def broken(:''" and c = no_cache
      and full_name = "''octo/demo''" and root = ?root, OF h1 h2 h3 h4 h5 h6]
    h1 h2 h3 h4 h5
  show ?thesis by simp
qed

section \<open>The order of the undocumented items\<close>


lemma forest_level_Nil: "forest_level d [] = []"
  by (simp add: forest_level_def)

lemma forest_level_append: "forest_level d (q @ r) = forest_level d q @ forest_level d r"
  by (simp add: forest_level_def)






lemma forest_level_concat:
  "forest_level d (concat qs) = concat (map (forest_level d) qs)"
  by (induction qs) (auto simp: forest_level_append forest_level_Nil)
















end
